theory Spec2Isabelle
  imports Main "HOL-Library.Sublist"
begin

section \<open>Web analytics: the filter store\<close>

text \<open>
  The embedding follows \<^verbatim>\<open>webAnalyticsLogic\<close> (the kea logic of the web-analytics
  scene) and \<^verbatim>\<open>WebDashboard.tsx\<close>. A JavaScript string is a \<open>string\<close>: the
  code concatenates strings, compares them and tests one for being the start of another,
  none of which depends on the encoding. The reducers are pure functions from the old
  state and the action's payload to the new state.
\<close>

subsection \<open>Property filters\<close>

text \<open>
  A value that can stand in a filter's \<^verbatim>\<open>value\<close> field or in one slot of its array.
  Reading a field that the object does not have gives \<open>Undefined\<close>. The reducer never
  looks inside a number: it only compares it with the toggled string, and no number is
  equal to a string under \<^verbatim>\<open>Array.prototype.includes\<close>.
\<close>

datatype js_value = Undefined | Null | Str string | Num int

datatype property_filter_value = Scalar js_value | Array "js_value list"

text \<open>
  Modelled from the spec: the \<^verbatim>\<open>PropertyOperator\<close> enumeration is declared in
  \<^verbatim>\<open>~/types\<close>; the reducer names only \<^verbatim>\<open>Exact\<close> and tests every other
  operator for being different from it.
\<close>

datatype property_operator = Exact | OtherOperator string

text \<open>
  The elements of \<^verbatim>\<open>WebAnalyticsPropertyFilters\<close>: a union tagged by
  \<^verbatim>\<open>type\<close>, \<^verbatim>\<open>PropertyFilterType.Event\<close> with an operator or
  \<^verbatim>\<open>PropertyFilterType.HogQL\<close> without one.
\<close>

datatype property_filter =
    EventPropertyFilter (filter_key: string) (filter_value: property_filter_value)
      property_operator
  | HogQLPropertyFilter (filter_key: string) (filter_value: property_filter_value)

datatype property_filter_type = Event | HogQL

fun filter_type :: "property_filter \<Rightarrow> property_filter_type" where
  "filter_type (EventPropertyFilter k v op) = Event"
| "filter_type (HogQLPropertyFilter k v) = HogQL"

text \<open>\<^verbatim>\<open>f.operator\<close>: absent on a HogQL filter.\<close>

fun operator_of :: "property_filter \<Rightarrow> property_operator option" where
  "operator_of (EventPropertyFilter k v op) = Some op"
| "operator_of (HogQLPropertyFilter k v) = None"

type_synonym WebAnalyticsPropertyFilters = "property_filter list"

definition initialWebAnalyticsFilter :: WebAnalyticsPropertyFilters where
  "initialWebAnalyticsFilter = []"

subsection \<open>Set-once properties\<close>

definition setOncePropertyNames :: "string list" where
  "setOncePropertyNames =
     [''$initial_pathname'', ''$initial_referrer'', ''$initial_utm_source'',
      ''$initial_utm_campaign'']"

text \<open>The template literal \<^verbatim>\<open>properties.$set_once.${key} = '${value}'\<close>;
  \<open>CHR 0x27\<close> is the single quote.\<close>

definition hogqlForSetOnceProperty :: "string \<Rightarrow> string \<Rightarrow> string" where
  "hogqlForSetOnceProperty key value =
     ''properties.$set_once.'' @ key @ '' = '' @ [CHR 0x27] @ value @ [CHR 0x27]"

text \<open>\<^verbatim>\<open>p.key.startsWith(...)\<close> is the prefix order on strings.\<close>

definition isHogqlForSetOnceProperty :: "string \<Rightarrow> property_filter \<Rightarrow> bool" where
  "isHogqlForSetOnceProperty key p \<longleftrightarrow>
     key \<in> set setOncePropertyNames \<and>
     prefix (''properties.$set_once.'' @ key @ '' = '') (filter_key p)"

subsection \<open>The reducer of \<^verbatim>\<open>togglePropertyFilter\<close>\<close>

text \<open>
  Modelled from the spec: \<^verbatim>\<open>isNotNil\<close> is imported from \<^verbatim>\<open>lib/utils\<close>; it
  keeps what is neither \<^verbatim>\<open>null\<close> nor \<^verbatim>\<open>undefined\<close>.
\<close>

definition isNotNil :: "js_value \<Rightarrow> bool" where
  "isNotNil x \<longleftrightarrow> x \<noteq> Null \<and> x \<noteq> Undefined"

text \<open>The same \<^verbatim>\<open>.filter(isNotNil)\<close> over the results of the \<^verbatim>\<open>map\<close>
  callback, where \<open>None\<close> is the callback's \<^verbatim>\<open>null\<close>.\<close>

fun filterNotNil :: "'a option list \<Rightarrow> 'a list" where
  "filterNotNil [] = []"
| "filterNotNil (None # xs) = filterNotNil xs"
| "filterNotNil (Some x # xs) = x # filterNotNil xs"

text \<open>The predicate given to \<^verbatim>\<open>oldPropertyFilters.some\<close>.\<close>

definition matchesToggle :: "string \<Rightarrow> property_filter \<Rightarrow> bool" where
  "matchesToggle key f \<longleftrightarrow>
     (filter_type f = Event \<and> filter_key f = key \<and> operator_of f = Some Exact) \<or>
     (filter_type f = HogQL \<and> isHogqlForSetOnceProperty key f)"

text \<open>\<^verbatim>\<open>(Array.isArray(f.value) ? f.value : [f.value]).filter(isNotNil)\<close>\<close>

definition oldValueOf :: "property_filter \<Rightarrow> js_value list" where
  "oldValueOf f =
     filter isNotNil (case filter_value f of Array xs \<Rightarrow> xs | Scalar x \<Rightarrow> [x])"

text \<open>The callback given to \<^verbatim>\<open>oldPropertyFilters.map\<close>.\<close>

definition toggleOne :: "string \<Rightarrow> string \<Rightarrow> property_filter \<Rightarrow> property_filter option" where
  "toggleOne key value f =
     (if key \<in> set setOncePropertyNames then
        (if filter_type f \<noteq> HogQL then Some f
         else if \<not> isHogqlForSetOnceProperty key f then Some f
         else
           (let hogql = hogqlForSetOnceProperty key value in
            if filter_key f = hogql then None
            else Some (HogQLPropertyFilter key (Scalar (Str hogql)))))
      else
        (if filter_key f \<noteq> key \<or> filter_type f \<noteq> Event \<or> operator_of f \<noteq> Some Exact
         then Some f
         else
           (let oldValue = oldValueOf f in
            if Str value \<in> set oldValue then
              (if length oldValue > 1
               then Some (EventPropertyFilter key (Array [Str value]) Exact)
               else None)
            else Some (EventPropertyFilter key (Array (oldValue @ [Str value])) Exact))))"

definition togglePropertyFilter ::
    "WebAnalyticsPropertyFilters \<Rightarrow> string \<Rightarrow> string \<Rightarrow> WebAnalyticsPropertyFilters" where
  "togglePropertyFilter oldPropertyFilters key value =
     (if list_ex (matchesToggle key) oldPropertyFilters then
        filterNotNil (map (toggleOne key value) oldPropertyFilters)
      else
        (let newFilter =
           (if key \<in> set setOncePropertyNames
            then HogQLPropertyFilter (hogqlForSetOnceProperty key value) (Scalar Undefined)
            else EventPropertyFilter key (Scalar (Str value)) Exact)
         in oldPropertyFilters @ [newFilter]))"

text \<open>A run of toggle actions on the store, from its initial filter list.\<close>

definition toggleAll :: "(string \<times> string) list \<Rightarrow> WebAnalyticsPropertyFilters" where
  "toggleAll kvs =
     foldl (\<lambda>fs (k, v). togglePropertyFilter fs k v) initialWebAnalyticsFilter kvs"

text \<open>A list of Exact Event filters only, no two of them with the same key.\<close>

definition exactEventsOnly :: "WebAnalyticsPropertyFilters \<Rightarrow> bool" where
  "exactEventsOnly fs \<longleftrightarrow>
     list_all (\<lambda>f. filter_type f = Event \<and> operator_of f = Some Exact) fs \<and>
     distinct (map filter_key fs)"

section \<open>Web analytics: the store and its tiles\<close>

subsection \<open>The tab selections and the store\<close>

text \<open>The members of the string enumerations \<^verbatim>\<open>SourceTab\<close>, \<^verbatim>\<open>DeviceTab\<close> and
  \<^verbatim>\<open>PathTab\<close>: each is the string of its own name.\<close>

definition SourceTab_REFERRING_DOMAIN :: string where
  "SourceTab_REFERRING_DOMAIN = ''REFERRING_DOMAIN''"

definition SourceTab_UTM_SOURCE :: string where
  "SourceTab_UTM_SOURCE = ''UTM_SOURCE''"

definition SourceTab_UTM_CAMPAIGN :: string where
  "SourceTab_UTM_CAMPAIGN = ''UTM_CAMPAIGN''"

definition DeviceTab_BROWSER :: string where
  "DeviceTab_BROWSER = ''BROWSER''"

definition DeviceTab_OS :: string where
  "DeviceTab_OS = ''OS''"

definition DeviceTab_DEVICE_TYPE :: string where
  "DeviceTab_DEVICE_TYPE = ''DEVICE_TYPE''"

definition PathTab_PATH :: string where
  "PathTab_PATH = ''PATH''"

definition PathTab_INITIAL_PATH :: string where
  "PathTab_INITIAL_PATH = ''INITIAL_PATH''"

record store =
  webAnalyticsFilters_of :: WebAnalyticsPropertyFilters
  sourceTab_of :: string
  deviceTab_of :: string
  pathTab_of :: string

text \<open>The defaults of the four reducers.\<close>

definition initialStore :: store where
  "initialStore =
     \<lparr>webAnalyticsFilters_of = initialWebAnalyticsFilter,
      sourceTab_of = SourceTab_REFERRING_DOMAIN,
      deviceTab_of = DeviceTab_BROWSER,
      pathTab_of = PathTab_PATH\<rparr>"

datatype action =
    SetWebAnalyticsFilters WebAnalyticsPropertyFilters
  | TogglePropertyFilter string string
  | SetSourceTab string
  | SetDeviceTab string
  | SetPathTab string

text \<open>The four reducers together: each action changes the one field that listens to it.\<close>

fun reducer :: "store \<Rightarrow> action \<Rightarrow> store" where
  "reducer s (SetWebAnalyticsFilters webAnalyticsFilters) =
     s\<lparr>webAnalyticsFilters_of := webAnalyticsFilters\<rparr>"
| "reducer s (TogglePropertyFilter key value) =
     s\<lparr>webAnalyticsFilters_of := togglePropertyFilter (webAnalyticsFilters_of s) key value\<rparr>"
| "reducer s (SetSourceTab t) = s\<lparr>sourceTab_of := t\<rparr>"
| "reducer s (SetDeviceTab t) = s\<lparr>deviceTab_of := t\<rparr>"
| "reducer s (SetPathTab t) = s\<lparr>pathTab_of := t\<rparr>"

subsection \<open>Queries\<close>

text \<open>
  Modelled from the spec: the enumerations \<^verbatim>\<open>NodeKind\<close>, \<^verbatim>\<open>WebStatsBreakdown\<close>,
  \<^verbatim>\<open>BaseMathType\<close> and \<^verbatim>\<open>ChartDisplayType\<close> are declared in
  \<^verbatim>\<open>~/queries/schema\<close> and \<^verbatim>\<open>~/types\<close>. Of the first, the third and the fourth
  only the members the selector names are given; \<^verbatim>\<open>WebStatsBreakdown\<close> has the eight
  members of the specification's table, which are the eight cases of the two
  \<^verbatim>\<open>switch\<close> statements of the dashboard.
\<close>

datatype node_kind =
  DataTableNode | WebOverviewStatsQuery | WebStatsTableQuery | InsightVizNode | TrendsQuery
  | EventsNode

datatype WebStatsBreakdown =
  Page | InitialPage | InitialReferringDomain | InitialUTMSource | InitialUTMCampaign
  | Browser | OS | DeviceType

datatype BaseMathType = UniqueUsers

datatype ChartDisplayType = ActionsLineGraph | WorldMap

text \<open>Object literals are records; a field that a literal leaves out is \<open>None\<close>.\<close>

record date_range =
  date_from :: "string option"
  date_to :: "string option"

record events_node =
  event :: string
  series_kind :: node_kind
  math :: BaseMathType
  series_name :: "string option"

record trends_filter =
  compare :: "bool option"
  display :: ChartDisplayType

record breakdown_filter =
  breakdown :: string
  breakdown_type :: string

record query_source =
  source_kind :: node_kind
  properties :: WebAnalyticsPropertyFilters
  breakdownBy :: "WebStatsBreakdown option"
  source_breakdown :: "breakdown_filter option"
  dateRange :: "date_range option"
  interval :: "string option"
  series :: "events_node list option"
  trendsFilter :: "trends_filter option"
  filterTestAccounts :: "bool option"

record query_schema =
  full :: "bool option"
  query_kind :: node_kind
  source :: query_source

subsection \<open>Tiles\<close>

record layout =
  colSpan :: "nat option"
  rowSpan :: "nat option"

record tab =
  tab_id :: string
  tab_title :: string
  linkText :: string
  tab_query :: query_schema

text \<open>\<^verbatim>\<open>setTabId\<close> is one of the store's three action creators.\<close>

datatype tab_setter = setSourceTab | setDeviceTab | setPathTab

fun setTab :: "tab_setter \<Rightarrow> string \<Rightarrow> action" where
  "setTab setSourceTab t = SetSourceTab t"
| "setTab setDeviceTab t = SetDeviceTab t"
| "setTab setPathTab t = SetPathTab t"

datatype WebDashboardTile =
    QueryTile (tile_layout: layout) (tile_title: "string option") (tile_query: query_schema)
  | TabsTile (tile_layout: layout) (activeTabId: string) (setTabId: tab_setter)
      (tabs: "tab list")

text \<open>The selector \<^verbatim>\<open>tiles\<close>.\<close>

definition tiles ::
    "WebAnalyticsPropertyFilters \<Rightarrow> string \<Rightarrow> string \<Rightarrow> string \<Rightarrow> WebDashboardTile list" where
  "tiles webAnalyticsFilters pathTab deviceTab sourceTab =
     [QueryTile \<lparr>colSpan = Some 12, rowSpan = None\<rparr> None
        \<lparr>full = Some True, query_kind = DataTableNode,
         source =
           \<lparr>source_kind = WebOverviewStatsQuery, properties = webAnalyticsFilters,
            breakdownBy = None, source_breakdown = None, dateRange = None,
            interval = None, series = None, trendsFilter = None,
            filterTestAccounts = None\<rparr>\<rparr>,
      TabsTile \<lparr>colSpan = Some 6, rowSpan = None\<rparr> pathTab setPathTab
        [\<lparr>tab_id = PathTab_PATH, tab_title = ''Top Paths'', linkText = ''Path'',
            tab_query =
              \<lparr>full = Some True, query_kind = DataTableNode,
               source =
                 \<lparr>source_kind = WebStatsTableQuery, properties = webAnalyticsFilters,
                  breakdownBy = Some Page, source_breakdown = None, dateRange = None,
                  interval = None, series = None, trendsFilter = None,
                  filterTestAccounts = None\<rparr>\<rparr>\<rparr>,
         \<lparr>tab_id = PathTab_INITIAL_PATH, tab_title = ''Top Entry Paths'', linkText = ''Entry Path'',
            tab_query =
              \<lparr>full = Some True, query_kind = DataTableNode,
               source =
                 \<lparr>source_kind = WebStatsTableQuery, properties = webAnalyticsFilters,
                  breakdownBy = Some InitialPage, source_breakdown = None, dateRange = None,
                  interval = None, series = None, trendsFilter = None,
                  filterTestAccounts = None\<rparr>\<rparr>\<rparr>],
      TabsTile \<lparr>colSpan = Some 6, rowSpan = None\<rparr> sourceTab setSourceTab
        [\<lparr>tab_id = SourceTab_REFERRING_DOMAIN, tab_title = ''Top Referrers'', linkText = ''Referrer'',
            tab_query =
              \<lparr>full = Some True, query_kind = DataTableNode,
               source =
                 \<lparr>source_kind = WebStatsTableQuery, properties = webAnalyticsFilters,
                  breakdownBy = Some InitialReferringDomain, source_breakdown = None, dateRange = None,
                  interval = None, series = None, trendsFilter = None,
                  filterTestAccounts = None\<rparr>\<rparr>\<rparr>,
         \<lparr>tab_id = SourceTab_UTM_SOURCE, tab_title = ''Top Sources'', linkText = ''UTM Source'',
            tab_query =
              \<lparr>full = Some True, query_kind = DataTableNode,
               source =
                 \<lparr>source_kind = WebStatsTableQuery, properties = webAnalyticsFilters,
                  breakdownBy = Some InitialUTMSource, source_breakdown = None, dateRange = None,
                  interval = None, series = None, trendsFilter = None,
                  filterTestAccounts = None\<rparr>\<rparr>\<rparr>,
         \<lparr>tab_id = SourceTab_UTM_CAMPAIGN, tab_title = ''Top Campaigns'', linkText = ''UTM Campaign'',
            tab_query =
              \<lparr>full = Some True, query_kind = DataTableNode,
               source =
                 \<lparr>source_kind = WebStatsTableQuery, properties = webAnalyticsFilters,
                  breakdownBy = Some InitialUTMCampaign, source_breakdown = None, dateRange = None,
                  interval = None, series = None, trendsFilter = None,
                  filterTestAccounts = None\<rparr>\<rparr>\<rparr>],
      TabsTile \<lparr>colSpan = Some 6, rowSpan = None\<rparr> deviceTab setDeviceTab
        [\<lparr>tab_id = DeviceTab_BROWSER, tab_title = ''Top Browsers'', linkText = ''Browser'',
            tab_query =
              \<lparr>full = Some True, query_kind = DataTableNode,
               source =
                 \<lparr>source_kind = WebStatsTableQuery, properties = webAnalyticsFilters,
                  breakdownBy = Some Browser, source_breakdown = None, dateRange = None,
                  interval = None, series = None, trendsFilter = None,
                  filterTestAccounts = None\<rparr>\<rparr>\<rparr>,
         \<lparr>tab_id = DeviceTab_OS, tab_title = ''Top OSs'', linkText = ''OS'',
            tab_query =
              \<lparr>full = Some True, query_kind = DataTableNode,
               source =
                 \<lparr>source_kind = WebStatsTableQuery, properties = webAnalyticsFilters,
                  breakdownBy = Some OS, source_breakdown = None, dateRange = None,
                  interval = None, series = None, trendsFilter = None,
                  filterTestAccounts = None\<rparr>\<rparr>\<rparr>,
         \<lparr>tab_id = DeviceTab_DEVICE_TYPE, tab_title = ''Top Device Types'', linkText = ''Device Type'',
            tab_query =
              \<lparr>full = Some True, query_kind = DataTableNode,
               source =
                 \<lparr>source_kind = WebStatsTableQuery, properties = webAnalyticsFilters,
                  breakdownBy = Some DeviceType, source_breakdown = None, dateRange = None,
                  interval = None, series = None, trendsFilter = None,
                  filterTestAccounts = None\<rparr>\<rparr>\<rparr>],
      QueryTile \<lparr>colSpan = Some 6, rowSpan = None\<rparr> (Some ''Unique users'')
        \<lparr>full = None, query_kind = InsightVizNode,
         source =
           \<lparr>source_kind = TrendsQuery, properties = webAnalyticsFilters,
            breakdownBy = None, source_breakdown = None,
            dateRange = Some \<lparr>date_from = Some ''-7d'', date_to = Some ''-1d''\<rparr>,
            interval = Some ''day'',
            series =
              Some [\<lparr>event = ''$pageview'', series_kind = EventsNode, math = UniqueUsers,
                     series_name = Some ''$pageview''\<rparr>],
            trendsFilter = Some \<lparr>compare = Some True, display = ActionsLineGraph\<rparr>,
            filterTestAccounts = Some True\<rparr>\<rparr>,
      QueryTile \<lparr>colSpan = Some 6, rowSpan = None\<rparr> (Some ''World Map (Unique Users)'')
        \<lparr>full = None, query_kind = InsightVizNode,
         source =
           \<lparr>source_kind = TrendsQuery, properties = webAnalyticsFilters,
            breakdownBy = None,
            source_breakdown =
              Some \<lparr>breakdown = ''$geoip_country_code'', breakdown_type = ''person''\<rparr>,
            dateRange = Some \<lparr>date_from = Some ''-7d'', date_to = None\<rparr>,
            interval = None,
            series =
              Some [\<lparr>event = ''$pageview'', series_kind = EventsNode, math = UniqueUsers,
                     series_name = None\<rparr>],
            trendsFilter = Some \<lparr>compare = None, display = WorldMap\<rparr>,
            filterTestAccounts = Some True\<rparr>\<rparr>]"

text \<open>Every query a tile holds: its own, or one for each of its tabs.\<close>

fun tileQueries :: "WebDashboardTile \<Rightarrow> query_schema list" where
  "tileQueries (QueryTile l t q) = [q]"
| "tileQueries (TabsTile l a s ts) = map tab_query ts"

definition allQueries :: "WebDashboardTile list \<Rightarrow> query_schema list" where
  "allQueries ts = concat (map tileQueries ts)"

text \<open>What identifies a tile by position: its title, or the identifiers of its tabs.\<close>

fun tileLabel :: "WebDashboardTile \<Rightarrow> string option \<times> string list" where
  "tileLabel (QueryTile l t q) = (t, [])"
| "tileLabel (TabsTile l a s ts) = (None, map tab_id ts)"

subsection \<open>The breakdown-value cell of the dashboard\<close>

datatype error = UnexpectedNeverError "WebStatsBreakdown option"

text \<open>
  The \<^verbatim>\<open>switch\<close> of \<^verbatim>\<open>BreakdownValueCell\<close> that chooses \<^verbatim>\<open>propertyName\<close>. Its
  argument is the \<^verbatim>\<open>breakdownBy\<close> field as read from the query's source; a value
  that is not a member of the enumeration reaches \<^verbatim>\<open>default\<close>, which throws.
\<close>

fun breakdownPropertyName :: "WebStatsBreakdown option \<Rightarrow> error + string" where
  "breakdownPropertyName (Some Page) = Inr ''$pathname''"
| "breakdownPropertyName (Some InitialPage) = Inr ''$initial_pathname''"
| "breakdownPropertyName (Some InitialReferringDomain) = Inr ''$initial_referrer''"
| "breakdownPropertyName (Some InitialUTMSource) = Inr ''$initial_utm_source''"
| "breakdownPropertyName (Some InitialUTMCampaign) = Inr ''$initial_utm_campaign''"
| "breakdownPropertyName (Some Browser) = Inr ''$browser''"
| "breakdownPropertyName (Some OS) = Inr ''$os''"
| "breakdownPropertyName (Some DeviceType) = Inr ''$device_type''"
| "breakdownPropertyName b = Inl (UnexpectedNeverError b)"

text \<open>The anchor the cell renders: the action its \<^verbatim>\<open>onClick\<close> dispatches, and its text.\<close>

datatype element = Anchor (onClick: action) (children: string)

text \<open>\<^verbatim>\<open>BreakdownValueCell\<close>: \<open>None\<close> is the \<^verbatim>\<open>null\<close> it returns for another kind
  of query or for a value that is not a string.\<close>

definition BreakdownValueCell :: "js_value \<Rightarrow> query_schema \<Rightarrow> error + element option" where
  "BreakdownValueCell value query =
     (if source_kind (source query) \<noteq> WebStatsTableQuery then Inr None
      else
        (case value of
           Str v \<Rightarrow>
             (case breakdownPropertyName (breakdownBy (source query)) of
                Inl e \<Rightarrow> Inl e
              | Inr propertyName \<Rightarrow> Inr (Some (Anchor (TogglePropertyFilter propertyName v) v)))
         | _ \<Rightarrow> Inr None))"

text \<open>The specification's table from a breakdown to the property name toggled on click.\<close>

fun specPropertyName :: "WebStatsBreakdown \<Rightarrow> string" where
  "specPropertyName Page = ''$pathname''"
| "specPropertyName InitialPage = ''$initial_pathname''"
| "specPropertyName InitialReferringDomain = ''$initial_referrer''"
| "specPropertyName InitialUTMSource = ''$initial_utm_source''"
| "specPropertyName InitialUTMCampaign = ''$initial_utm_campaign''"
| "specPropertyName Browser = ''$browser''"
| "specPropertyName OS = ''$os''"
| "specPropertyName DeviceType = ''$device_type''"

section \<open>Properties\<close>

lemma filterNotNil_append:
  "filterNotNil (xs @ ys) = filterNotNil xs @ filterNotNil ys"
  by (induction xs rule: filterNotNil.induct) simp_all

subsection \<open>Facts about the reducer\<close>

lemma hogql_is_hogql:
  "key \<in> set setOncePropertyNames \<Longrightarrow>
   isHogqlForSetOnceProperty key (HogQLPropertyFilter (hogqlForSetOnceProperty key value) x)"
  by (simp add: isHogqlForSetOnceProperty_def hogqlForSetOnceProperty_def)

lemma toggleOne_no_match:
  "\<not> matchesToggle key f \<Longrightarrow> toggleOne key value f = Some f"
  by (cases f) (auto simp: toggleOne_def matchesToggle_def)

lemma toggle_map_no_match:
  "\<forall>f\<in>set fs. \<not> matchesToggle key f \<Longrightarrow>
   filterNotNil (map (toggleOne key value) fs) = fs"
  by (induction fs) (simp_all add: toggleOne_no_match)

lemma toggle_absent:
  "\<not> list_ex (matchesToggle key) fs \<Longrightarrow>
   togglePropertyFilter fs key value =
     fs @ [if key \<in> set setOncePropertyNames
           then HogQLPropertyFilter (hogqlForSetOnceProperty key value) (Scalar Undefined)
           else EventPropertyFilter key (Scalar (Str value)) Exact]"
  by (simp add: togglePropertyFilter_def)

lemma toggle_split:
  "matchesToggle key f \<Longrightarrow>
   togglePropertyFilter (pre @ f # post) key value =
     filterNotNil (map (toggleOne key value) pre) @
     filterNotNil [toggleOne key value f] @
     filterNotNil (map (toggleOne key value) post)"
  by (cases "toggleOne key value f")
    (simp_all add: togglePropertyFilter_def filterNotNil_append list_ex_iff)

lemma fresh_matches:
  "matchesToggle key
     (if key \<in> set setOncePropertyNames
      then HogQLPropertyFilter (hogqlForSetOnceProperty key value) (Scalar Undefined)
      else EventPropertyFilter key (Scalar (Str value)) Exact)"
  by (simp add: matchesToggle_def hogql_is_hogql)

lemma fresh_toggled_off:
  "toggleOne key value
     (if key \<in> set setOncePropertyNames
      then HogQLPropertyFilter (hogqlForSetOnceProperty key value) (Scalar Undefined)
      else EventPropertyFilter key (Scalar (Str value)) Exact) = None"
  by (simp add: toggleOne_def hogql_is_hogql oldValueOf_def isNotNil_def)

lemmas toggle_defs =
  togglePropertyFilter_def toggleOne_def matchesToggle_def isHogqlForSetOnceProperty_def
  hogqlForSetOnceProperty_def setOncePropertyNames_def oldValueOf_def isNotNil_def
  initialWebAnalyticsFilter_def

subsection \<open>Toggling a key that no filter matches\<close>

text \<open>
  Claim C3, as the code has it. When no filter of the list matches the key, the toggle
  appends one new filter and changes nothing else. For a set-once key the new filter is a
  HogQL filter whose key is the expression for the key and the value. For any other key it
  is an Event filter with operator Exact whose value is the toggled string itself, a
  scalar and not a one-element array; the reducer reads that scalar as the one-element
  list of the toggled value when the key is toggled again.
\<close>

theorem toggle_no_match_appends:
  assumes "\<not> list_ex (matchesToggle key) fs"
  shows "togglePropertyFilter fs key value =
           fs @ [if key \<in> set setOncePropertyNames
                 then HogQLPropertyFilter (hogqlForSetOnceProperty key value) (Scalar Undefined)
                 else EventPropertyFilter key (Scalar (Str value)) Exact] \<and>
         oldValueOf (EventPropertyFilter key (Scalar (Str value)) Exact) = [Str value]"
  using assms by (simp add: toggle_absent oldValueOf_def isNotNil_def)

theorem toggle_no_match_appends_witness:
  "togglePropertyFilter initialWebAnalyticsFilter ''$pathname'' ''/home'' =
     [EventPropertyFilter ''$pathname'' (Scalar (Str ''/home'')) Exact]"
  using toggle_no_match_appends [of "''$pathname''" initialWebAnalyticsFilter "''/home''"]
  by (simp add: initialWebAnalyticsFilter_def setOncePropertyNames_def)

text \<open>
  The claim as the specification words it fails on the scenario it gives: the value of the
  appended filter is not the array \<^verbatim>\<open>['/home']\<close>.
\<close>

theorem toggle_no_match_array_counterexample:
  "togglePropertyFilter initialWebAnalyticsFilter ''$pathname'' ''/home'' \<noteq>
     [EventPropertyFilter ''$pathname'' (Array [Str ''/home'']) Exact]"
  by (simp add: toggle_defs)

subsection \<open>Toggling twice\<close>

text \<open>
  Claim C5. For every filter list and every key that no filter of the list matches, set-once
  or not, toggling the same key and value twice in succession gives the list back.
\<close>

theorem double_toggle_restores:
  assumes "\<not> list_ex (matchesToggle key) S"
  shows "togglePropertyFilter (togglePropertyFilter S key value) key value = S"
proof -
  let ?new = "if key \<in> set setOncePropertyNames
           then HogQLPropertyFilter (hogqlForSetOnceProperty key value) (Scalar Undefined)
           else EventPropertyFilter key (Scalar (Str value)) Exact"
  have first: "togglePropertyFilter S key value = S @ ?new # []"
    using assms by (rule toggle_absent)
  have "togglePropertyFilter (S @ ?new # []) key value =
     filterNotNil (map (toggleOne key value) S) @
     filterNotNil [toggleOne key value ?new] @
     filterNotNil (map (toggleOne key value) [])"
    by (rule toggle_split) (rule fresh_matches)
  also have "filterNotNil (map (toggleOne key value) S) = S"
    using assms by (intro toggle_map_no_match) (simp add: list_ex_iff)
  also have "toggleOne key value ?new = None"
    by (rule fresh_toggled_off)
  finally show ?thesis
    using first by simp
qed

theorem double_toggle_restores_witness:
  "\<not> list_ex (matchesToggle ''$initial_referrer'')
       [EventPropertyFilter ''$browser'' (Array [Str ''Chrome'']) Exact] \<and>
   togglePropertyFilter
     (togglePropertyFilter [EventPropertyFilter ''$browser'' (Array [Str ''Chrome'']) Exact]
        ''$initial_referrer'' ''example.com'')
     ''$initial_referrer'' ''example.com'' =
   [EventPropertyFilter ''$browser'' (Array [Str ''Chrome'']) Exact]"
proof -
  have h: "\<not> list_ex (matchesToggle ''$initial_referrer'')
       [EventPropertyFilter ''$browser'' (Array [Str ''Chrome'']) Exact]"
    by (simp add: matchesToggle_def)
  show ?thesis
    using h double_toggle_restores [OF h, of "''example.com''"] by simp
qed

text \<open>
  Claim C6. For a key that is not set-once and that no filter of the list carries, and two
  different values, toggling the first and then the second appends one Event filter with
  operator Exact whose values are the two, in that order; it is the only filter of the
  result with that key.
\<close>

theorem two_values_union:
  assumes "key \<notin> set setOncePropertyNames"
    and "\<forall>f\<in>set S. filter_key f \<noteq> key"
    and "v1 \<noteq> v2"
  shows "togglePropertyFilter (togglePropertyFilter S key v1) key v2 =
           S @ [EventPropertyFilter key (Array [Str v1, Str v2]) Exact] \<and>
         filter (\<lambda>f. filter_key f = key)
           (togglePropertyFilter (togglePropertyFilter S key v1) key v2) =
           [EventPropertyFilter key (Array [Str v1, Str v2]) Exact]"
proof -
  let ?one = "EventPropertyFilter key (Scalar (Str v1)) Exact"
  let ?two = "EventPropertyFilter key (Array [Str v1, Str v2]) Exact"
  have none: "\<forall>f\<in>set S. \<not> matchesToggle key f"
    using assms(1,2) by (auto simp: matchesToggle_def isHogqlForSetOnceProperty_def)
  then have first: "togglePropertyFilter S key v1 = S @ ?one # []"
    using assms(1) by (simp add: toggle_absent list_ex_iff)
  have m: "matchesToggle key ?one"
    by (simp add: matchesToggle_def)
  have one: "toggleOne key v2 ?one = Some ?two"
    using assms(1,3) by (simp add: toggleOne_def oldValueOf_def isNotNil_def)
  have second: "togglePropertyFilter (S @ ?one # []) key v2 = S @ [?two]"
    using toggle_split [OF m, of S "[]" v2] toggle_map_no_match [OF none, of v2] one
    by simp
  have "filter (\<lambda>f. filter_key f = key) S = []"
    using assms(2) by (simp add: filter_empty_conv)
  then show ?thesis
    using first second by simp
qed

theorem two_values_union_witness:
  "togglePropertyFilter
     (togglePropertyFilter [EventPropertyFilter ''$os'' (Scalar (Str ''Linux'')) Exact]
        ''$browser'' ''Chrome'')
     ''$browser'' ''Safari'' =
   [EventPropertyFilter ''$os'' (Scalar (Str ''Linux'')) Exact,
    EventPropertyFilter ''$browser'' (Array [Str ''Chrome'', Str ''Safari'']) Exact]"
  using two_values_union [of "''$browser''"
      "[EventPropertyFilter ''$os'' (Scalar (Str ''Linux'')) Exact]" "''Chrome''" "''Safari''"]
  by (simp add: setOncePropertyNames_def)

subsection \<open>Toggling a value of a multi-valued Event filter\<close>

text \<open>
  Claim C7, as the code has it. Let the key not be a set-once key, and let the list hold an
  Event filter for it with operator Exact whose values (what is left of its value after the
  reducer's normalisation) are two or more and include the toggled value, no other filter
  of the list being an Exact Event filter for the key. Then the toggle puts an Exact Event
  filter for the key with the single value in that filter's place and leaves every other
  filter as it is, in the same order.
\<close>

theorem toggle_collapses_to_single:
  assumes "key \<notin> set setOncePropertyNames"
    and "Str v1 \<in> set (oldValueOf (EventPropertyFilter key val Exact))"
    and "length (oldValueOf (EventPropertyFilter key val Exact)) > 1"
    and "\<forall>g\<in>set pre \<union> set post. \<not> matchesToggle key g"
  shows "togglePropertyFilter (pre @ EventPropertyFilter key val Exact # post) key v1 =
           pre @ EventPropertyFilter key (Array [Str v1]) Exact # post"
proof -
  let ?f = "EventPropertyFilter key val Exact"
  have m: "matchesToggle key ?f"
    by (simp add: matchesToggle_def)
  have one: "toggleOne key v1 ?f = Some (EventPropertyFilter key (Array [Str v1]) Exact)"
    using assms(1,2,3) by (simp add: toggleOne_def)
  have "filterNotNil (map (toggleOne key v1) pre) = pre"
    and "filterNotNil (map (toggleOne key v1) post) = post"
    using assms(4) by (simp_all add: toggle_map_no_match)
  then show ?thesis
    using toggle_split [OF m, of pre post v1] one by simp
qed

theorem toggle_collapses_to_single_witness:
  "togglePropertyFilter
     [EventPropertyFilter ''$os'' (Scalar (Str ''Linux'')) Exact,
      EventPropertyFilter ''$browser'' (Array [Str ''Chrome'', Str ''Safari'']) Exact,
      HogQLPropertyFilter (hogqlForSetOnceProperty ''$initial_referrer'' ''example.com'')
        (Scalar Undefined)]
     ''$browser'' ''Safari'' =
   [EventPropertyFilter ''$os'' (Scalar (Str ''Linux'')) Exact,
    EventPropertyFilter ''$browser'' (Array [Str ''Safari'']) Exact,
    HogQLPropertyFilter (hogqlForSetOnceProperty ''$initial_referrer'' ''example.com'')
      (Scalar Undefined)]"
  using toggle_collapses_to_single [of "''$browser''" "''Safari''"
      "Array [Str ''Chrome'', Str ''Safari'']"
      "[EventPropertyFilter ''$os'' (Scalar (Str ''Linux'')) Exact]"
      "[HogQLPropertyFilter (hogqlForSetOnceProperty ''$initial_referrer'' ''example.com'')
          (Scalar Undefined)]"]
  by (simp add: setOncePropertyNames_def oldValueOf_def isNotNil_def matchesToggle_def
      isHogqlForSetOnceProperty_def)

text \<open>
  For a set-once key the claim fails: the map callback returns every filter that is not a
  HogQL filter as it is, so an Exact Event filter for \<^verbatim>\<open>$initial_pathname\<close> with the
  values \<^verbatim>\<open>a\<close> and \<^verbatim>\<open>b\<close> keeps both when \<^verbatim>\<open>a\<close> is toggled.
\<close>

theorem toggle_collapse_set_once_counterexample:
  "togglePropertyFilter
     [EventPropertyFilter ''$initial_pathname'' (Array [Str ''a'', Str ''b'']) Exact]
     ''$initial_pathname'' ''a'' =
   [EventPropertyFilter ''$initial_pathname'' (Array [Str ''a'', Str ''b'']) Exact] \<and>
   togglePropertyFilter
     [EventPropertyFilter ''$initial_pathname'' (Array [Str ''a'', Str ''b'']) Exact]
     ''$initial_pathname'' ''a'' \<noteq>
   [EventPropertyFilter ''$initial_pathname'' (Array [Str ''a'']) Exact]"
  by (simp add: toggle_defs)

subsection \<open>An Event filter whose operator is not Exact\<close>

text \<open>
  Claim C10, as the code has it. Let the key not be a set-once key, let the list hold an
  Event filter for it whose operator is not Exact, and let no other filter of the list be
  one that the reducer matches for the key (an Exact Event filter for it). The toggle does
  not take the filter for a match: it leaves the list as it is and appends a new Exact
  Event filter with the same key. Where that filter was the only one with the key, the
  result holds exactly two filters with that key, the old one and the new one.
\<close>

theorem toggle_ignores_non_exact:
  assumes "key \<notin> set setOncePropertyNames"
    and "op \<noteq> Exact"
    and "\<forall>g\<in>set pre \<union> set post. \<not> matchesToggle key g"
  shows "togglePropertyFilter (pre @ EventPropertyFilter key val op # post) key v =
           pre @ EventPropertyFilter key val op # post @
             [EventPropertyFilter key (Scalar (Str v)) Exact] \<and>
         ((\<forall>g\<in>set pre \<union> set post. filter_key g \<noteq> key) \<longrightarrow>
          filter (\<lambda>g. filter_key g = key)
            (togglePropertyFilter (pre @ EventPropertyFilter key val op # post) key v) =
            [EventPropertyFilter key val op, EventPropertyFilter key (Scalar (Str v)) Exact])"
proof -
  let ?f = "EventPropertyFilter key val op"
  have "\<not> matchesToggle key ?f"
    using assms(2) by (simp add: matchesToggle_def)
  then have "\<forall>g\<in>set (pre @ ?f # post). \<not> matchesToggle key g"
    using assms(3) by auto
  then have r: "togglePropertyFilter (pre @ ?f # post) key v =
      (pre @ ?f # post) @ [EventPropertyFilter key (Scalar (Str v)) Exact]"
    using assms(1) toggle_absent [of key "pre @ ?f # post" v] by (simp add: list_ex_iff)
  have "filter (\<lambda>g. filter_key g = key) pre = [] \<and>
        filter (\<lambda>g. filter_key g = key) post = []"
    if "\<forall>g\<in>set pre \<union> set post. filter_key g \<noteq> key"
    using that by (simp add: filter_empty_conv)
  then show ?thesis
    using r by simp
qed

theorem toggle_ignores_non_exact_witness:
  "togglePropertyFilter
     [EventPropertyFilter ''$os'' (Scalar (Str ''Linux'')) Exact,
      EventPropertyFilter ''$browser'' (Scalar (Str ''Chr'')) (OtherOperator ''icontains'')]
     ''$browser'' ''Chrome'' =
   [EventPropertyFilter ''$os'' (Scalar (Str ''Linux'')) Exact,
    EventPropertyFilter ''$browser'' (Scalar (Str ''Chr'')) (OtherOperator ''icontains''),
    EventPropertyFilter ''$browser'' (Scalar (Str ''Chrome'')) Exact] \<and>
   filter (\<lambda>g. filter_key g = ''$browser'')
     (togglePropertyFilter
        [EventPropertyFilter ''$os'' (Scalar (Str ''Linux'')) Exact,
         EventPropertyFilter ''$browser'' (Scalar (Str ''Chr'')) (OtherOperator ''icontains'')]
        ''$browser'' ''Chrome'') =
   [EventPropertyFilter ''$browser'' (Scalar (Str ''Chr'')) (OtherOperator ''icontains''),
    EventPropertyFilter ''$browser'' (Scalar (Str ''Chrome'')) Exact]"
  using toggle_ignores_non_exact [of "''$browser''" "OtherOperator ''icontains''"
      "[EventPropertyFilter ''$os'' (Scalar (Str ''Linux'')) Exact]" "[]"
      "Scalar (Str ''Chr'')" "''Chrome''"]
  by (simp add: setOncePropertyNames_def matchesToggle_def)

text \<open>
  Where the list also holds an Exact Event filter for the key, the claim as worded fails:
  the reducer matches that filter and adds the toggled value to it, and appends nothing.
\<close>

theorem toggle_non_exact_beside_exact_counterexample:
  "togglePropertyFilter
     [EventPropertyFilter ''$browser'' (Scalar (Str ''Chr'')) (OtherOperator ''icontains''),
      EventPropertyFilter ''$browser'' (Scalar (Str ''Safari'')) Exact]
     ''$browser'' ''Chrome'' =
   [EventPropertyFilter ''$browser'' (Scalar (Str ''Chr'')) (OtherOperator ''icontains''),
    EventPropertyFilter ''$browser'' (Array [Str ''Safari'', Str ''Chrome'']) Exact] \<and>
   togglePropertyFilter
     [EventPropertyFilter ''$browser'' (Scalar (Str ''Chr'')) (OtherOperator ''icontains''),
      EventPropertyFilter ''$browser'' (Scalar (Str ''Safari'')) Exact]
     ''$browser'' ''Chrome'' \<noteq>
   [EventPropertyFilter ''$browser'' (Scalar (Str ''Chr'')) (OtherOperator ''icontains''),
    EventPropertyFilter ''$browser'' (Scalar (Str ''Safari'')) Exact,
    EventPropertyFilter ''$browser'' (Scalar (Str ''Chrome'')) Exact]"
  by (simp add: toggle_defs)

subsection \<open>Set-once keys\<close>

text \<open>
  Claim C4, at an input where the code departs from it. From the empty list,
  toggling \<^verbatim>\<open>$initial_referrer\<close> with \<^verbatim>\<open>a.com\<close> appends the HogQL filter whose key is
  the expression for \<^verbatim>\<open>a.com\<close>. Toggling the same key with \<^verbatim>\<open>b.com\<close> then
  replaces it by a HogQL filter whose key is the bare property name and whose value is the
  expression for \<^verbatim>\<open>b.com\<close>, which is not the filter that toggling \<^verbatim>\<open>b.com\<close> on
  the empty list appends (its key is the expression and it has no value), and which the
  reducer no longer takes for a filter of that key.
\<close>

theorem set_once_replace_shape:
  "togglePropertyFilter (togglePropertyFilter [] ''$initial_referrer'' ''a.com'')
     ''$initial_referrer'' ''b.com'' =
     [HogQLPropertyFilter ''$initial_referrer''
        (Scalar (Str (hogqlForSetOnceProperty ''$initial_referrer'' ''b.com'')))] \<and>
   togglePropertyFilter [] ''$initial_referrer'' ''b.com'' =
     [HogQLPropertyFilter (hogqlForSetOnceProperty ''$initial_referrer'' ''b.com'')
        (Scalar Undefined)] \<and>
   \<not> list_ex (matchesToggle ''$initial_referrer'')
       (togglePropertyFilter (togglePropertyFilter [] ''$initial_referrer'' ''a.com'')
          ''$initial_referrer'' ''b.com'')"
  by (simp add: toggle_defs)

theorem set_once_replace_shape_witness:
  "togglePropertyFilter (togglePropertyFilter [] ''$initial_referrer'' ''a.com'')
     ''$initial_referrer'' ''b.com'' \<noteq>
   togglePropertyFilter [] ''$initial_referrer'' ''b.com''"
  using set_once_replace_shape by (simp add: hogqlForSetOnceProperty_def)

text \<open>
  Claim C1, at an input where the code departs from it. From the initial list, four
  toggles of \<^verbatim>\<open>$initial_pathname\<close> with four different values leave two filters
  whose key is \<^verbatim>\<open>$initial_pathname\<close>: each replaced filter is no longer matched, so
  the next toggle appends a new one.
\<close>

theorem set_once_toggles_duplicate_key:
  "toggleAll
     [(''$initial_pathname'', ''a''), (''$initial_pathname'', ''b''),
      (''$initial_pathname'', ''c''), (''$initial_pathname'', ''d'')] =
   [HogQLPropertyFilter ''$initial_pathname''
      (Scalar (Str (hogqlForSetOnceProperty ''$initial_pathname'' ''b''))),
    HogQLPropertyFilter ''$initial_pathname''
      (Scalar (Str (hogqlForSetOnceProperty ''$initial_pathname'' ''d'')))]"
  by (simp add: toggleAll_def toggle_defs)

theorem set_once_toggles_duplicate_key_witness:
  "\<not> distinct (map filter_key
       (toggleAll
          [(''$initial_pathname'', ''a''), (''$initial_pathname'', ''b''),
           (''$initial_pathname'', ''c''), (''$initial_pathname'', ''d'')]))"
  using set_once_toggles_duplicate_key by simp

text \<open>
  Keys that are not set-once do keep the invariant: after any run of toggles of such keys
  from the initial list, the list holds Exact Event filters only and no key twice.
\<close>

lemma toggleOne_event_key:
  assumes "key \<notin> set setOncePropertyNames"
    and "toggleOne key value f = Some g"
    and "filter_type f = Event \<and> operator_of f = Some Exact"
  shows "filter_key g = filter_key f \<and> filter_type g = Event \<and> operator_of g = Some Exact"
  using assms by (auto simp: toggleOne_def Let_def split: if_splits)

lemma toggle_map_event_keys:
  assumes "key \<notin> set setOncePropertyNames"
    and "list_all (\<lambda>f. filter_type f = Event \<and> operator_of f = Some Exact) fs"
    and "distinct (map filter_key fs)"
  shows "list_all (\<lambda>f. filter_type f = Event \<and> operator_of f = Some Exact)
           (filterNotNil (map (toggleOne key value) fs)) \<and>
         set (map filter_key (filterNotNil (map (toggleOne key value) fs))) \<subseteq>
           set (map filter_key fs) \<and>
         distinct (map filter_key (filterNotNil (map (toggleOne key value) fs)))"
  using assms(2,3)
proof (induction fs)
  case Nil
  then show ?case by simp
next
  case (Cons f fs)
  then have ih: "list_all (\<lambda>f. filter_type f = Event \<and> operator_of f = Some Exact)
           (filterNotNil (map (toggleOne key value) fs))"
      "set (map filter_key (filterNotNil (map (toggleOne key value) fs))) \<subseteq>
           set (map filter_key fs)"
      "distinct (map filter_key (filterNotNil (map (toggleOne key value) fs)))"
    by simp_all
  show ?case
  proof (cases "toggleOne key value f")
    case None
    then show ?thesis using ih by auto
  next
    case (Some g)
    from toggleOne_event_key [OF assms(1) Some] Cons.prems(1)
    have g: "filter_key g = filter_key f" "filter_type g = Event" "operator_of g = Some Exact"
      by simp_all
    have "filter_key f \<notin> set (map filter_key fs)"
      using Cons.prems(2) by simp
    then have "filter_key f \<notin> set (map filter_key (filterNotNil (map (toggleOne key value) fs)))"
      using ih(2) by blast
    then show ?thesis using Some g ih by auto
  qed
qed

lemma toggle_keeps_exactEventsOnly:
  assumes "key \<notin> set setOncePropertyNames" and "exactEventsOnly fs"
  shows "exactEventsOnly (togglePropertyFilter fs key value)"
proof (cases "list_ex (matchesToggle key) fs")
  case True
  then show ?thesis
    using toggle_map_event_keys [OF assms(1), of fs "value"] assms(2)
    by (simp add: exactEventsOnly_def togglePropertyFilter_def)
next
  case False
  have "filter_key f \<noteq> key" if "f \<in> set fs" for f
    using that False assms(2)
    by (auto simp: exactEventsOnly_def list_ex_iff list_all_iff matchesToggle_def)
  then have "key \<notin> set (map filter_key fs)" by auto
  then show ?thesis
    using False assms by (simp add: exactEventsOnly_def togglePropertyFilter_def)
qed

lemma event_toggles_distinct_keys:
  assumes "\<forall>(k, v)\<in>set kvs. k \<notin> set setOncePropertyNames"
  shows "exactEventsOnly (toggleAll kvs)"
  using assms
proof (induction kvs rule: rev_induct)
  case Nil
  then show ?case
    by (simp add: toggleAll_def initialWebAnalyticsFilter_def exactEventsOnly_def)
next
  case (snoc kv kvs)
  obtain k v where kv: "kv = (k, v)" by (cases kv)
  have "exactEventsOnly (toggleAll kvs)" using snoc by simp
  moreover have "k \<notin> set setOncePropertyNames" using snoc.prems kv by simp
  ultimately have "exactEventsOnly (togglePropertyFilter (toggleAll kvs) k v)"
    by (simp add: toggle_keeps_exactEventsOnly)
  then show ?case by (simp add: toggleAll_def kv)
qed

subsection \<open>The tiles\<close>

text \<open>
  Claim C2, as the code has it. For every filter list and every three tab selections the
  selector returns six tiles, always in the same order: the overview, the tabbed tiles of
  the paths, the sources and the devices (with the same tab identifiers in the same order),
  the tile titled \<^verbatim>\<open>Unique users\<close> and the tile titled
  \<^verbatim>\<open>World Map (Unique Users)\<close>. Equal inputs give equal tile lists.
\<close>

theorem tiles_six_in_fixed_order:
  "length (tiles fs pathTab deviceTab sourceTab) = 6 \<and>
   map tileLabel (tiles fs pathTab deviceTab sourceTab) =
     [(None, []),
      (None, [''PATH'', ''INITIAL_PATH'']),
      (None, [''REFERRING_DOMAIN'', ''UTM_SOURCE'', ''UTM_CAMPAIGN'']),
      (None, [''BROWSER'', ''OS'', ''DEVICE_TYPE'']),
      (Some ''Unique users'', []),
      (Some ''World Map (Unique Users)'', [])] \<and>
   (fs' = fs \<and> pathTab' = pathTab \<and> deviceTab' = deviceTab \<and> sourceTab' = sourceTab \<longrightarrow>
      tiles fs' pathTab' deviceTab' sourceTab' = tiles fs pathTab deviceTab sourceTab)"
  by (simp add: tiles_def PathTab_PATH_def PathTab_INITIAL_PATH_def
      SourceTab_REFERRING_DOMAIN_def SourceTab_UTM_SOURCE_def SourceTab_UTM_CAMPAIGN_def
      DeviceTab_BROWSER_def DeviceTab_OS_def DeviceTab_DEVICE_TYPE_def)

theorem tiles_six_in_fixed_order_witness:
  "length (tiles [EventPropertyFilter ''$os'' (Scalar (Str ''Linux'')) Exact]
     PathTab_INITIAL_PATH DeviceTab_OS SourceTab_UTM_SOURCE) = 6 \<and>
   map tileLabel (tiles [EventPropertyFilter ''$os'' (Scalar (Str ''Linux'')) Exact]
     PathTab_INITIAL_PATH DeviceTab_OS SourceTab_UTM_SOURCE) =
     [(None, []),
      (None, [''PATH'', ''INITIAL_PATH'']),
      (None, [''REFERRING_DOMAIN'', ''UTM_SOURCE'', ''UTM_CAMPAIGN'']),
      (None, [''BROWSER'', ''OS'', ''DEVICE_TYPE'']),
      (Some ''Unique users'', []),
      (Some ''World Map (Unique Users)'', [])]"
  using tiles_six_in_fixed_order
    [of "[EventPropertyFilter ''$os'' (Scalar (Str ''Linux'')) Exact]"
      PathTab_INITIAL_PATH DeviceTab_OS SourceTab_UTM_SOURCE
      "[EventPropertyFilter ''$os'' (Scalar (Str ''Linux'')) Exact]"
      PathTab_INITIAL_PATH DeviceTab_OS SourceTab_UTM_SOURCE]
  by simp

text \<open>The tiles are not seven, for the store's initial state already.\<close>

theorem tiles_seven_counterexample:
  "length (tiles initialWebAnalyticsFilter PathTab_PATH DeviceTab_BROWSER
     SourceTab_REFERRING_DOMAIN) \<noteq> 7"
  by (simp add: tiles_def)

text \<open>
  Claim C8, as the code has it. The tiles hold eleven queries. The source of each carries the
  filter list as its properties, unchanged. The flag \<^verbatim>\<open>filterTestAccounts\<close> is set,
  to true, on the sources of the two trends queries only; the source of the overview
  query and the sources of the eight tabbed table queries have no such field.
\<close>

theorem tile_queries_carry_filters:
  "length (allQueries (tiles fs pathTab deviceTab sourceTab)) = 11 \<and>
   (\<forall>q\<in>set (allQueries (tiles fs pathTab deviceTab sourceTab)).
      properties (source q) = fs \<and>
      filterTestAccounts (source q) =
        (if source_kind (source q) = TrendsQuery then Some True else None)) \<and>
   map (\<lambda>q. source_kind (source q)) (allQueries (tiles fs pathTab deviceTab sourceTab)) =
     [WebOverviewStatsQuery, WebStatsTableQuery, WebStatsTableQuery, WebStatsTableQuery,
      WebStatsTableQuery, WebStatsTableQuery, WebStatsTableQuery, WebStatsTableQuery,
      WebStatsTableQuery, TrendsQuery, TrendsQuery]"
  by (simp add: allQueries_def tiles_def)

theorem tile_queries_carry_filters_witness:
  "properties (source (tile_query (hd (tiles
      [EventPropertyFilter ''$os'' (Scalar (Str ''Linux'')) Exact]
      PathTab_PATH DeviceTab_BROWSER SourceTab_REFERRING_DOMAIN)))) =
     [EventPropertyFilter ''$os'' (Scalar (Str ''Linux'')) Exact] \<and>
   filterTestAccounts (source (tile_query (hd (tiles
      [EventPropertyFilter ''$os'' (Scalar (Str ''Linux'')) Exact]
      PathTab_PATH DeviceTab_BROWSER SourceTab_REFERRING_DOMAIN)))) = None"
proof -
  let ?ts = "tiles [EventPropertyFilter ''$os'' (Scalar (Str ''Linux'')) Exact]
      PathTab_PATH DeviceTab_BROWSER SourceTab_REFERRING_DOMAIN"
  have mem: "tile_query (hd ?ts) \<in> set (allQueries ?ts)"
    by (simp add: allQueries_def tiles_def)
  have kind: "source_kind (source (tile_query (hd ?ts))) = WebOverviewStatsQuery"
    by (simp add: tiles_def)
  show ?thesis
    using tile_queries_carry_filters
      [of "[EventPropertyFilter ''$os'' (Scalar (Str ''Linux'')) Exact]"
        PathTab_PATH DeviceTab_BROWSER SourceTab_REFERRING_DOMAIN] mem kind
    by auto
qed

text \<open>Not every query sets the flag: the overview query of the initial state does not.\<close>

theorem tile_queries_flag_counterexample:
  "\<not> (\<forall>q\<in>set (allQueries (tiles initialWebAnalyticsFilter PathTab_PATH DeviceTab_BROWSER
          SourceTab_REFERRING_DOMAIN)).
        filterTestAccounts (source q) = Some True)"
  by (simp add: allQueries_def tiles_def)

subsection \<open>From a breakdown to the property toggled on click\<close>

text \<open>
  Claim C9. For each of the eight breakdowns the \<^verbatim>\<open>switch\<close> of the cell gives a
  property name and not the error of its \<^verbatim>\<open>default\<close> branch, and the name is the one
  of the specification's table. For a table query broken down by \<open>b\<close> and a string value
  the cell renders an anchor whose click dispatches the toggle of that property name and
  the clicked value, which the store reduces with \<open>togglePropertyFilter\<close>.
\<close>

theorem breakdown_property_name_total:
  assumes "source_kind (source query) = WebStatsTableQuery"
    and "breakdownBy (source query) = Some b"
  shows "breakdownPropertyName (Some b) = Inr (specPropertyName b) \<and>
         BreakdownValueCell (Str v) query =
           Inr (Some (Anchor (TogglePropertyFilter (specPropertyName b) v) v)) \<and>
         webAnalyticsFilters_of (reducer s (TogglePropertyFilter (specPropertyName b) v)) =
           togglePropertyFilter (webAnalyticsFilters_of s) (specPropertyName b) v"
proof -
  have name: "breakdownPropertyName (Some b) = Inr (specPropertyName b)"
    by (cases b) simp_all
  then show ?thesis
    using assms by (simp add: BreakdownValueCell_def)
qed

theorem breakdown_property_name_total_witness:
  "BreakdownValueCell (Str ''/home'')
     (tab_query (hd (tabs (tiles [] PathTab_PATH DeviceTab_BROWSER SourceTab_REFERRING_DOMAIN ! 1)))) =
     Inr (Some (Anchor (TogglePropertyFilter ''$pathname'' ''/home'') ''/home''))"
proof -
  let ?q = "tab_query (hd (tabs (tiles [] PathTab_PATH DeviceTab_BROWSER SourceTab_REFERRING_DOMAIN ! 1)))"
  have k: "source_kind (source ?q) = WebStatsTableQuery"
    by (simp add: tiles_def)
  have b: "breakdownBy (source ?q) = Some Page"
    by (simp add: tiles_def)
  show ?thesis
    using breakdown_property_name_total [OF k b, of "''/home''" initialStore] by simp
qed

end
